theory Spec2Isabelle
  imports Main
begin

section \<open>The complexity analyser's command line tool (\<^verbatim>\<open>src/main.py\<close>)\<close>

text \<open>
  The program is a wrapper around Python's \<^verbatim>\<open>ast\<close> module and the \<^verbatim>\<open>radon\<close> library.
  Those libraries, the file system and the clock of the logging module are not code of
  the program: they are the fields of the record \<open>env\<close> below, and every theorem holds
  for all of them. What the program does with them (the order of the calls, the handling
  of each exception class, the filter on the module body, the printing) is modelled
  from the source.
\<close>

subsection \<open>Data\<close>

text \<open>
  Exceptions, by the classes the \<^verbatim>\<open>except\<close> clauses tell apart, each with the text
  \<^verbatim>\<open>str(e)\<close>. Only subclasses of \<^verbatim>\<open>Exception\<close> are modelled.
\<close>

datatype py_error =
    FileNotFoundError string
  | SyntaxError string
  | OtherException string

text \<open>
  Statements of a module body. \<^verbatim>\<open>isinstance(node, (ast.Import, ast.ImportFrom))\<close> tells
  two classes from every other one; compound statements carry their own bodies, so
  that an import below the top level is a different thing from one in the module body.
\<close>

datatype stmt =
    Import "string list"
  | ImportFrom string "string list"
  | FunctionDef string "stmt list"
  | ClassDef string "stmt list"
  | If string "stmt list" "stmt list"
  | OtherStmt string

record module =
  body :: "stmt list"
  type_ignores :: "string list"

text \<open>A block reported by \<^verbatim>\<open>radon.complexity.cc_visit\<close>: the attributes the program reads.\<close>

record block =
  name :: string
  complexity :: int
  lineno :: int
  endline :: int

text \<open>The named tuple returned by \<^verbatim>\<open>radon.raw.analyze\<close>.\<close>

record raw_module =
  loc :: int
  lloc :: int
  sloc :: int
  comments :: int
  multi :: int
  blank :: int
  single_comments :: int

datatype level = ERROR | INFO

record log_record =
  asctime :: string
  levelname :: level
  message :: string

text \<open>
  The collaborators. \<open>clock env k\<close> is the time stamp that the logging module gives
  to the record number \<open>k\<close> of a run.
\<close>

record env =
  read_file :: "string \<Rightarrow> py_error + string"
  ast_parse :: "string \<Rightarrow> py_error + module"
  ast_unparse :: "module \<Rightarrow> py_error + string"
  cc_visit :: "string \<Rightarrow> py_error + block list"
  raw_analyze :: "string \<Rightarrow> py_error + raw_module"
  clock :: "nat \<Rightarrow> string"

text \<open>
  What a run leaves behind: the arguments of the calls of \<^verbatim>\<open>print\<close> in order (print
  ends each with a line terminator), the log records in order, and the paths given to
  \<^verbatim>\<open>open\<close> in order.
\<close>

record world =
  stdout :: "string list"
  logs :: "log_record list"
  opened :: "string list"

definition world0 :: world where
  "world0 = \<lparr>stdout = [], logs = [], opened = []\<rparr>"

text \<open>
  The command line as \<^verbatim>\<open>argparse\<close> finds it: the positional argument, the value of
  \<^verbatim>\<open>--threshold\<close> when the option is given, and whether each flag is present.
\<close>

record cli =
  arg_filepath :: string
  opt_threshold :: "int option"
  flag_report_raw :: bool
  flag_include_imports :: bool

text \<open>The namespace returned by \<^verbatim>\<open>parse_args\<close>.\<close>

record args =
  filepath :: string
  threshold :: int
  report_raw :: bool
  include_imports :: bool

record outcome =
  exit_code :: int
  final :: world

subsection \<open>Printing and logging\<close>

definition newline :: string where
  "newline = [CHR 0x0A]"

definition digit_char :: "nat \<Rightarrow> char" where
  "digit_char d = ''0123456789'' ! d"

text \<open>\<^verbatim>\<open>str\<close> of an integer, as the f-strings call it.\<close>

function str_nat :: "nat \<Rightarrow> string" where
  "str_nat n = (if n < 10 then [digit_char n] else str_nat (n div 10) @ [digit_char (n mod 10)])"
  by pat_completeness auto
termination
  by (relation "measure id") auto

declare str_nat.simps [simp del]

definition str_int :: "int \<Rightarrow> string" where
  "str_int i = (if i < 0 then ''-'' @ str_nat (nat (- i)) else str_nat (nat i))"

definition print :: "string \<Rightarrow> world \<Rightarrow> world" where
  "print s w = w\<lparr>stdout := stdout w @ [s]\<rparr>"

text \<open>
  \<^verbatim>\<open>logging.basicConfig(level=logging.INFO, format='%(asctime)s - %(levelname)s - %(message)s')\<close>:
  records of both levels are emitted, each with its time stamp.
\<close>

definition logging_emit :: "env \<Rightarrow> level \<Rightarrow> string \<Rightarrow> world \<Rightarrow> world" where
  "logging_emit e lv msg w =
     w\<lparr>logs := logs w @ [\<lparr>asctime = clock e (length (logs w)), levelname = lv, message = msg\<rparr>]\<rparr>"

definition logging_error :: "env \<Rightarrow> string \<Rightarrow> world \<Rightarrow> world" where
  "logging_error e msg w = logging_emit e ERROR msg w"

definition logging_info :: "env \<Rightarrow> string \<Rightarrow> world \<Rightarrow> world" where
  "logging_info e msg w = logging_emit e INFO msg w"

definition level_text :: "level \<Rightarrow> string" where
  "level_text lv = (case lv of ERROR \<Rightarrow> ''ERROR'' | INFO \<Rightarrow> ''INFO'')"

definition format_record :: "log_record \<Rightarrow> string" where
  "format_record r = asctime r @ '' - '' @ level_text (levelname r) @ '' - '' @ message r"

subsection \<open>\<^verbatim>\<open>setup_argparse\<close>\<close>

text \<open>
  \<^verbatim>\<open>--threshold\<close> has \<^verbatim>\<open>type=int, default=10\<close>; both flags are \<^verbatim>\<open>store_true\<close>.
\<close>

definition setup_argparse :: "cli \<Rightarrow> args" where
  "setup_argparse c =
     \<lparr>filepath = arg_filepath c,
      threshold = (case opt_threshold c of None \<Rightarrow> 10 | Some t \<Rightarrow> t),
      report_raw = flag_report_raw c,
      include_imports = flag_include_imports c\<rparr>"

subsection \<open>\<^verbatim>\<open>calculate_cyclomatic_complexity\<close>\<close>

definition is_import :: "stmt \<Rightarrow> bool" where
  "is_import node = (case node of Import _ \<Rightarrow> True | ImportFrom _ _ \<Rightarrow> True | _ \<Rightarrow> False)"

text \<open>Lines 60 to 63: the loop over \<^verbatim>\<open>tree.body\<close> that appends to \<^verbatim>\<open>new_body\<close>.\<close>

fun remove_imports :: "stmt list \<Rightarrow> stmt list \<Rightarrow> stmt list" where
  "remove_imports [] new_body = new_body"
| "remove_imports (node # rest) new_body =
     (if \<not> is_import node then remove_imports rest (new_body @ [node])
      else remove_imports rest new_body)"

text \<open>Lines 57 to 65: the text that goes to the complexity visitor.\<close>

definition strip_imports :: "env \<Rightarrow> string \<Rightarrow> bool \<Rightarrow> py_error + string" where
  "strip_imports e code incl =
     (if \<not> incl then
        (case ast_parse e code of
           Inl err \<Rightarrow> Inl err
         | Inr tree \<Rightarrow> ast_unparse e (tree\<lparr>body := remove_imports (body tree) []\<rparr>))
      else Inr code)"

type_synonym entry = "string \<times> int \<times> int \<times> int"

definition entry_of :: "block \<Rightarrow> entry" where
  "entry_of res = (name res, complexity res, lineno res, endline res)"

text \<open>Lines 54 to 68: the body of the \<^verbatim>\<open>try\<close>.\<close>

definition cc_try :: "env \<Rightarrow> string \<Rightarrow> bool \<Rightarrow> py_error + entry list" where
  "cc_try e fp incl =
     (case read_file e fp of
        Inl err \<Rightarrow> Inl err
      | Inr code \<Rightarrow>
          (case strip_imports e code incl of
             Inl err \<Rightarrow> Inl err
           | Inr code' \<Rightarrow>
               (case cc_visit e code' of
                  Inl err \<Rightarrow> Inl err
                | Inr results \<Rightarrow> Inr (map entry_of results))))"

text \<open>
  Lines 70 to 78: the three \<^verbatim>\<open>except\<close> clauses, in their order. Each logs one error and
  returns the empty list; they differ in the message.
\<close>

definition cc_except_message :: "string \<Rightarrow> py_error \<Rightarrow> string" where
  "cc_except_message fp err =
     (case err of
        FileNotFoundError m \<Rightarrow> ''File not found: '' @ fp
      | SyntaxError m \<Rightarrow> ''Syntax error in '' @ fp @ '': '' @ m
      | OtherException m \<Rightarrow> ''An unexpected error occurred: '' @ m)"

definition calculate_cyclomatic_complexity ::
  "env \<Rightarrow> string \<Rightarrow> bool \<Rightarrow> world \<Rightarrow> entry list \<times> world" where
  "calculate_cyclomatic_complexity e fp incl w =
     (let w1 = w\<lparr>opened := opened w @ [fp]\<rparr> in
      case cc_try e fp incl of
        Inr rs \<Rightarrow> (rs, w1)
      | Inl err \<Rightarrow> ([], logging_error e (cc_except_message fp err) w1))"

subsection \<open>\<^verbatim>\<open>calculate_raw_metrics\<close>\<close>

text \<open>The dictionary of lines 95 to 102, in the order of insertion.\<close>

definition metrics_dict :: "raw_module \<Rightarrow> (string \<times> int) list" where
  "metrics_dict metrics =
     [(''sloc'', sloc metrics),
      (''lloc'', lloc metrics),
      (''comments'', comments metrics),
      (''multi'', multi metrics),
      (''blank'', blank metrics),
      (''single_comments'', single_comments metrics)]"

definition raw_try :: "env \<Rightarrow> string \<Rightarrow> py_error + (string \<times> int) list" where
  "raw_try e fp =
     (case read_file e fp of
        Inl err \<Rightarrow> Inl err
      | Inr code \<Rightarrow>
          (case raw_analyze e code of
             Inl err \<Rightarrow> Inl err
           | Inr metrics \<Rightarrow> Inr (metrics_dict metrics)))"

text \<open>
  Lines 103 to 108: two \<^verbatim>\<open>except\<close> clauses; a syntax error falls to the second one.
\<close>

definition raw_except_message :: "string \<Rightarrow> py_error \<Rightarrow> string" where
  "raw_except_message fp err =
     (case err of
        FileNotFoundError m \<Rightarrow> ''File not found: '' @ fp
      | SyntaxError m \<Rightarrow> ''An unexpected error occurred: '' @ m
      | OtherException m \<Rightarrow> ''An unexpected error occurred: '' @ m)"

definition calculate_raw_metrics ::
  "env \<Rightarrow> string \<Rightarrow> world \<Rightarrow> (string \<times> int) list \<times> world" where
  "calculate_raw_metrics e fp w =
     (let w1 = w\<lparr>opened := opened w @ [fp]\<rparr> in
      case raw_try e fp of
        Inr d \<Rightarrow> (d, w1)
      | Inl err \<Rightarrow> ([], logging_error e (raw_except_message fp err) w1))"

subsection \<open>\<^verbatim>\<open>main\<close>\<close>

definition entry_line :: "entry \<Rightarrow> string" where
  "entry_line r =
     (case r of (n, c, l, el) \<Rightarrow>
        ''  - '' @ n @ '' (lines '' @ str_int l @ ''-'' @ str_int el @ ''): Complexity = ''
        @ str_int c)"

definition warning_line :: "int \<Rightarrow> string" where
  "warning_line thr = ''    Warning: Complexity exceeds threshold ('' @ str_int thr @ '')!''"

text \<open>Lines 125 to 128: the loop over the entries.\<close>

fun report_entries :: "int \<Rightarrow> entry list \<Rightarrow> world \<Rightarrow> world" where
  "report_entries thr [] w = w"
| "report_entries thr ((n, c, l, el) # rest) w =
     (let w1 = print (entry_line (n, c, l, el)) w;
          w2 = (if c > thr then print (warning_line thr) w1 else w1)
      in report_entries thr rest w2)"

text \<open>Lines 123 to 129.\<close>

definition report_complexity :: "args \<Rightarrow> entry list \<Rightarrow> world \<Rightarrow> world" where
  "report_complexity a complexity_results w =
     (if complexity_results \<noteq> [] then
        print newline
          (report_entries (threshold a) complexity_results
             (print (''Code Complexity Analysis for '' @ filepath a @ '':'' @ newline) w))
      else w)"

definition metric_line :: "string \<times> int \<Rightarrow> string" where
  "metric_line kv = (case kv of (metric, v) \<Rightarrow> ''  - '' @ metric @ '': '' @ str_int v)"

text \<open>Lines 135 and 136: the loop over the items of the dictionary.\<close>

fun report_metrics :: "(string \<times> int) list \<Rightarrow> world \<Rightarrow> world" where
  "report_metrics [] w = w"
| "report_metrics (kv # rest) w = report_metrics rest (print (metric_line kv) w)"

text \<open>Lines 131 to 137.\<close>

definition report_raw_metrics :: "env \<Rightarrow> args \<Rightarrow> world \<Rightarrow> world" where
  "report_raw_metrics e a w =
     (if report_raw a then
        (case calculate_raw_metrics e (filepath a) w of
           (raw_metrics, w1) \<Rightarrow>
             (if raw_metrics \<noteq> [] then
                print newline
                  (report_metrics raw_metrics (print (''Raw Code Metrics:'' @ newline) w1))
              else w1))
      else w)"

text \<open>
  \<^verbatim>\<open>main\<close>. \<^verbatim>\<open>sys.exit(1)\<close> ends the run at once; a run that reaches the end of \<^verbatim>\<open>main\<close>
  has the exit code 0.
\<close>

definition main :: "env \<Rightarrow> cli \<Rightarrow> outcome" where
  "main e c =
     (let a = setup_argparse c in
      if threshold a \<le> 0 then
        \<lparr>exit_code = 1,
         final = logging_error e ''Complexity threshold must be a positive integer.'' world0\<rparr>
      else
        (case calculate_cyclomatic_complexity e (filepath a) (include_imports a) world0 of
           (complexity_results, w1) \<Rightarrow>
             (let w2 = report_complexity a complexity_results w1;
                  w3 = report_raw_metrics e a w2;
                  w4 = (if complexity_results = [] \<and> \<not> report_raw a
                        then logging_info e ''No results to display.'' w3 else w3)
              in \<lparr>exit_code = 0, final = w4\<rparr>)))"

subsection \<open>The lines that the two reports write\<close>

text \<open>
  The lines written for one entry, as the specification words them: the entry's name,
  line range and complexity, and a warning line when the complexity strictly exceeds
  the threshold.
\<close>

definition entry_lines :: "int \<Rightarrow> entry \<Rightarrow> string list" where
  "entry_lines thr r = entry_line r # (if fst (snd r) > thr then [warning_line thr] else [])"

text \<open>The results of the two analyses, apart from the world they change.\<close>

definition cc_results :: "env \<Rightarrow> string \<Rightarrow> bool \<Rightarrow> entry list" where
  "cc_results e fp incl = fst (calculate_cyclomatic_complexity e fp incl world0)"

definition raw_results :: "env \<Rightarrow> string \<Rightarrow> (string \<times> int) list" where
  "raw_results e fp = fst (calculate_raw_metrics e fp world0)"

text \<open>What \<open>report_complexity\<close> and \<open>report_raw_metrics\<close> add to the standard output.\<close>

definition complexity_section :: "args \<Rightarrow> entry list \<Rightarrow> string list" where
  "complexity_section a rs = stdout (report_complexity a rs world0)"

definition raw_section :: "env \<Rightarrow> args \<Rightarrow> string list" where
  "raw_section e a = stdout (report_raw_metrics e a world0)"

subsection \<open>The log without its time stamps\<close>

text \<open>
  The level and message of a record, and the records that a failure of each analysis
  leaves in the log.
\<close>

definition log_content :: "log_record \<Rightarrow> level \<times> string" where
  "log_content r = (levelname r, message r)"

definition cc_failure :: "env \<Rightarrow> string \<Rightarrow> bool \<Rightarrow> (level \<times> string) list" where
  "cc_failure e fp incl =
     (case cc_try e fp incl of Inl err \<Rightarrow> [(ERROR, cc_except_message fp err)] | Inr rs \<Rightarrow> [])"

definition raw_failure :: "env \<Rightarrow> string \<Rightarrow> (level \<times> string) list" where
  "raw_failure e fp =
     (case raw_try e fp of Inl err \<Rightarrow> [(ERROR, raw_except_message fp err)] | Inr d \<Rightarrow> [])"

subsection \<open>A recorded environment\<close>

text \<open>
  Five small files, with what Python's \<^verbatim>\<open>ast\<close> module and \<^verbatim>\<open>radon\<close> return for
  their texts: a function after an import and a blank line; the same function after a
  comment and a blank line; the function alone, as \<^verbatim>\<open>ast.unparse\<close> renders it; one
  assignment; and a text that does not parse. Every other path is missing. The concrete
  runs below are runs in this environment.
\<close>

definition sample_text :: string where
  "sample_text = ''import os'' @ newline @ newline @ ''def f():'' @ newline @ ''    pass'' @ newline"

definition plain_text :: string where
  "plain_text = ''# tool'' @ newline @ newline @ ''def f():'' @ newline @ ''    pass'' @ newline"

definition bare_text :: string where
  "bare_text = ''def f():'' @ newline @ ''    pass''"

definition consts_text :: string where
  "consts_text = ''x = 1''"

definition broken_text :: string where
  "broken_text = ''def f(:'' @ newline"

definition f_def :: stmt where
  "f_def = FunctionDef ''f'' [OtherStmt ''pass'']"

definition f_block :: "int \<Rightarrow> int \<Rightarrow> block" where
  "f_block l el = \<lparr>name = ''f'', complexity = 1, lineno = l, endline = el\<rparr>"

definition lookup :: "('a \<times> 'b) list \<Rightarrow> py_error \<Rightarrow> 'a \<Rightarrow> py_error + 'b" where
  "lookup table err k = (case map_of table k of None \<Rightarrow> Inl err | Some v \<Rightarrow> Inr v)"

definition sample_env :: env where
  "sample_env =
     \<lparr>read_file = lookup
        [(''sample.py'', sample_text), (''plain.py'', plain_text), (''bare.py'', bare_text),
         (''consts.py'', consts_text), (''broken.py'', broken_text)]
        (FileNotFoundError ''[Errno 2] No such file or directory''),
      ast_parse = lookup
        [(sample_text, \<lparr>body = [Import [''os''], f_def], type_ignores = []\<rparr>),
         (plain_text, \<lparr>body = [f_def], type_ignores = []\<rparr>),
         (bare_text, \<lparr>body = [f_def], type_ignores = []\<rparr>),
         (consts_text, \<lparr>body = [OtherStmt ''x = 1''], type_ignores = []\<rparr>)]
        (SyntaxError ''invalid syntax (<unknown>, line 1)''),
      ast_unparse = lookup
        [(\<lparr>body = [f_def], type_ignores = []\<rparr>, bare_text),
         (\<lparr>body = [OtherStmt ''x = 1''], type_ignores = []\<rparr>, consts_text)]
        (OtherException ''not recorded''),
      cc_visit = lookup
        [(sample_text, [f_block 3 4]), (plain_text, [f_block 3 4]), (bare_text, [f_block 1 2]),
         (consts_text, [])]
        (SyntaxError ''invalid syntax (<unknown>, line 1)''),
      raw_analyze = lookup
        [(sample_text,
          \<lparr>loc = 4, lloc = 3, sloc = 3, comments = 0, multi = 0, blank = 1, single_comments = 0\<rparr>),
         (consts_text,
          \<lparr>loc = 1, lloc = 1, sloc = 1, comments = 0, multi = 0, blank = 0, single_comments = 0\<rparr>)]
        (OtherException ''not recorded''),
      clock = (\<lambda>k. ''2024-01-01 00:00:00,000'')\<rparr>"

text \<open>A module body with an import inside a function.\<close>

definition nested_body :: "stmt list" where
  "nested_body =
     [Import [''os''], FunctionDef ''g'' [Import [''sys'']], ImportFrom ''a'' [''b''],
      OtherStmt ''x = 1'']"

text \<open>
  The scenario of the specification: one function of complexity 12, the default
  threshold, no raw metrics.
\<close>

definition scenario_env :: env where
  "scenario_env =
     sample_env\<lparr>cc_visit := \<lambda>s. Inr [\<lparr>name = ''f'', complexity = 12, lineno = 1, endline = 20\<rparr>]\<rparr>"

definition scenario_cli :: cli where
  "scenario_cli =
     \<lparr>arg_filepath = ''sample.py'', opt_threshold = None, flag_report_raw = False,
      flag_include_imports = True\<rparr>"

text \<open>A request for the raw metrics of the first recorded file, and the lines they give.\<close>

definition raw_cli :: cli where
  "raw_cli =
     \<lparr>arg_filepath = ''sample.py'', opt_threshold = None, flag_report_raw = True,
      flag_include_imports = False\<rparr>"

definition sample_raw_lines :: "string list" where
  "sample_raw_lines =
     [''Raw Code Metrics:'' @ newline, ''  - sloc: 3'', ''  - lloc: 3'', ''  - comments: 0'',
      ''  - multi: 0'', ''  - blank: 1'', ''  - single_comments: 0'', newline]"

text \<open>A second clock.\<close>

definition later_clock :: "nat \<Rightarrow> string" where
  "later_clock k = ''2024-06-30 12:00:00,000''"

text \<open>Requests for a path that does not exist and for a file without functions.\<close>

definition missing_cli :: cli where
  "missing_cli =
     \<lparr>arg_filepath = ''missing.py'', opt_threshold = None, flag_report_raw = False,
      flag_include_imports = False\<rparr>"

definition consts_cli :: cli where
  "consts_cli =
     \<lparr>arg_filepath = ''consts.py'', opt_threshold = None, flag_report_raw = False,
      flag_include_imports = False\<rparr>"

section \<open>Properties\<close>

subsection \<open>The loops and the effects of each function\<close>

lemma remove_imports_filter:
  "remove_imports xs acc = acc @ filter (\<lambda>node. \<not> is_import node) xs"
  by (induction xs arbitrary: acc) simp_all

lemma print_simps [simp]:
  "stdout (print s w) = stdout w @ [s]"
  "logs (print s w) = logs w"
  "opened (print s w) = opened w"
  by (simp_all add: print_def)

lemma logging_emit_simps [simp]:
  "stdout (logging_emit e lv msg w) = stdout w"
  "logs (logging_emit e lv msg w) =
     logs w @ [\<lparr>asctime = clock e (length (logs w)), levelname = lv, message = msg\<rparr>]"
  "opened (logging_emit e lv msg w) = opened w"
  by (simp_all add: logging_emit_def)

lemma report_entries_stdout:
  "stdout (report_entries thr rs w) = stdout w @ concat (map (entry_lines thr) rs)"
  by (induction rs arbitrary: w) (auto simp: entry_lines_def Let_def)

lemma report_entries_logs [simp]: "logs (report_entries thr rs w) = logs w"
  by (induction rs arbitrary: w) (auto simp: Let_def)

lemma report_entries_opened [simp]: "opened (report_entries thr rs w) = opened w"
  by (induction rs arbitrary: w) (auto simp: Let_def)

lemma report_metrics_stdout:
  "stdout (report_metrics d w) = stdout w @ map metric_line d"
  by (induction d arbitrary: w) simp_all

lemma report_metrics_logs [simp]: "logs (report_metrics d w) = logs w"
  by (induction d arbitrary: w) simp_all

lemma report_metrics_opened [simp]: "opened (report_metrics d w) = opened w"
  by (induction d arbitrary: w) simp_all

lemma cc_fst:
  "fst (calculate_cyclomatic_complexity e fp incl w) =
     (case cc_try e fp incl of Inl err \<Rightarrow> [] | Inr rs \<Rightarrow> rs)"
  by (simp add: calculate_cyclomatic_complexity_def Let_def split: sum.splits)

lemma cc_snd [simp]:
  "stdout (snd (calculate_cyclomatic_complexity e fp incl w)) = stdout w"
  "opened (snd (calculate_cyclomatic_complexity e fp incl w)) = opened w @ [fp]"
  "logs (snd (calculate_cyclomatic_complexity e fp incl w)) =
     logs w @ (case cc_try e fp incl of
                 Inl err \<Rightarrow> [\<lparr>asctime = clock e (length (logs w)), levelname = ERROR,
                               message = cc_except_message fp err\<rparr>]
               | Inr rs \<Rightarrow> [])"
  by (simp_all add: calculate_cyclomatic_complexity_def logging_error_def Let_def split: sum.splits)

lemma raw_fst:
  "fst (calculate_raw_metrics e fp w) = (case raw_try e fp of Inl err \<Rightarrow> [] | Inr d \<Rightarrow> d)"
  by (simp add: calculate_raw_metrics_def Let_def split: sum.splits)

lemma raw_snd [simp]:
  "stdout (snd (calculate_raw_metrics e fp w)) = stdout w"
  "opened (snd (calculate_raw_metrics e fp w)) = opened w @ [fp]"
  "logs (snd (calculate_raw_metrics e fp w)) =
     logs w @ (case raw_try e fp of
                 Inl err \<Rightarrow> [\<lparr>asctime = clock e (length (logs w)), levelname = ERROR,
                               message = raw_except_message fp err\<rparr>]
               | Inr d \<Rightarrow> [])"
  by (simp_all add: calculate_raw_metrics_def logging_error_def Let_def split: sum.splits)

lemma cc_results_eq: "fst (calculate_cyclomatic_complexity e fp incl w) = cc_results e fp incl"
  by (simp add: cc_results_def cc_fst)

lemma raw_results_eq: "fst (calculate_raw_metrics e fp w) = raw_results e fp"
  by (simp add: raw_results_def raw_fst)

lemma report_complexity_stdout:
  "stdout (report_complexity a rs w) = stdout w @ complexity_section a rs"
  by (simp add: complexity_section_def report_complexity_def report_entries_stdout world0_def)

lemma report_complexity_frame [simp]:
  "logs (report_complexity a rs w) = logs w"
  "opened (report_complexity a rs w) = opened w"
  by (simp_all add: report_complexity_def)

lemma report_raw_metrics_stdout:
  "stdout (report_raw_metrics e a w) = stdout w @ raw_section e a"
  by (simp add: raw_section_def report_raw_metrics_def split_beta report_metrics_stdout
      raw_results_eq world0_def)

lemma report_raw_metrics_opened:
  "opened (report_raw_metrics e a w) = opened w @ (if report_raw a then [filepath a] else [])"
  by (simp add: report_raw_metrics_def split_beta)

lemma cc_log_content:
  "map log_content (logs (snd (calculate_cyclomatic_complexity e fp incl w))) =
     map log_content (logs w) @ cc_failure e fp incl"
  by (simp add: cc_failure_def log_content_def split: sum.splits)

lemma report_raw_metrics_log_content:
  "map log_content (logs (report_raw_metrics e a w)) =
     map log_content (logs w) @ (if report_raw a then raw_failure e (filepath a) else [])"
  by (simp add: report_raw_metrics_def split_beta raw_failure_def log_content_def
      split: sum.splits)

lemma main_reject:
  "threshold (setup_argparse c) \<le> 0 \<Longrightarrow>
     main e c = \<lparr>exit_code = 1,
       final = logging_error e ''Complexity threshold must be a positive integer.'' world0\<rparr>"
  by (simp add: main_def Let_def)

lemma main_exit_code: "exit_code (main e c) = (if threshold (setup_argparse c) \<le> 0 then 1 else 0)"
  by (simp add: main_def Let_def split_beta)

lemma main_stdout:
  assumes "0 < threshold (setup_argparse c)"
  shows "stdout (final (main e c)) =
     complexity_section (setup_argparse c)
       (cc_results e (filepath (setup_argparse c)) (include_imports (setup_argparse c)))
     @ raw_section e (setup_argparse c)"
  using assms
  by (simp add: main_def Let_def split_beta report_raw_metrics_stdout report_complexity_stdout
      cc_results_eq logging_info_def world0_def)

lemma main_opened:
  assumes "0 < threshold (setup_argparse c)"
  shows "opened (final (main e c)) =
     filepath (setup_argparse c) # (if report_raw (setup_argparse c) then [filepath (setup_argparse c)] else [])"
  using assms
  by (simp add: main_def Let_def split_beta report_raw_metrics_opened logging_info_def world0_def)

lemma main_log_content:
  assumes "0 < threshold (setup_argparse c)"
  shows "map log_content (logs (final (main e c))) =
     cc_failure e (filepath (setup_argparse c)) (include_imports (setup_argparse c))
     @ (if report_raw (setup_argparse c) then raw_failure e (filepath (setup_argparse c)) else [])
     @ (if cc_results e (filepath (setup_argparse c)) (include_imports (setup_argparse c)) = []
           \<and> \<not> report_raw (setup_argparse c)
        then [(INFO, ''No results to display.'')] else [])"
  using assms
  by (simp add: main_def Let_def split_beta report_raw_metrics_log_content cc_log_content
      cc_results_eq logging_info_def world0_def)
     (simp add: log_content_def cc_failure_def split: sum.splits)

subsection \<open>The recorded environment, evaluated\<close>

lemma sample_texts_distinct:
  "sample_text \<noteq> plain_text" "sample_text \<noteq> bare_text" "sample_text \<noteq> consts_text"
  "plain_text \<noteq> bare_text" "plain_text \<noteq> consts_text" "bare_text \<noteq> consts_text"
  "broken_text \<noteq> sample_text" "broken_text \<noteq> plain_text" "broken_text \<noteq> bare_text"
  "broken_text \<noteq> consts_text"
  by (simp_all add: sample_text_def plain_text_def bare_text_def consts_text_def broken_text_def
      newline_def)

lemma sample_read:
  "read_file sample_env ''sample.py'' = Inr sample_text"
  "read_file sample_env ''plain.py'' = Inr plain_text"
  "read_file sample_env ''bare.py'' = Inr bare_text"
  "read_file sample_env ''consts.py'' = Inr consts_text"
  "read_file sample_env ''broken.py'' = Inr broken_text"
  "read_file sample_env ''missing.py'' = Inl (FileNotFoundError ''[Errno 2] No such file or directory'')"
  by (simp_all add: sample_env_def lookup_def)

lemma sample_parse:
  "ast_parse sample_env sample_text = Inr \<lparr>body = [Import [''os''], f_def], type_ignores = []\<rparr>"
  "ast_parse sample_env plain_text = Inr \<lparr>body = [f_def], type_ignores = []\<rparr>"
  "ast_parse sample_env bare_text = Inr \<lparr>body = [f_def], type_ignores = []\<rparr>"
  "ast_parse sample_env consts_text = Inr \<lparr>body = [OtherStmt ''x = 1''], type_ignores = []\<rparr>"
  "ast_parse sample_env broken_text = Inl (SyntaxError ''invalid syntax (<unknown>, line 1)'')"
  using sample_texts_distinct by (simp_all add: sample_env_def lookup_def)

lemma sample_unparse:
  "ast_unparse sample_env \<lparr>body = [f_def], type_ignores = []\<rparr> = Inr bare_text"
  "ast_unparse sample_env \<lparr>body = [OtherStmt ''x = 1''], type_ignores = []\<rparr> = Inr consts_text"
  by (simp_all add: sample_env_def lookup_def f_def_def)

lemma sample_visit:
  "cc_visit sample_env sample_text = Inr [f_block 3 4]"
  "cc_visit sample_env plain_text = Inr [f_block 3 4]"
  "cc_visit sample_env bare_text = Inr [f_block 1 2]"
  "cc_visit sample_env consts_text = Inr []"
  "cc_visit sample_env broken_text = Inl (SyntaxError ''invalid syntax (<unknown>, line 1)'')"
  using sample_texts_distinct by (simp_all add: sample_env_def lookup_def)

lemma sample_analyze:
  "raw_analyze sample_env sample_text =
     Inr \<lparr>loc = 4, lloc = 3, sloc = 3, comments = 0, multi = 0, blank = 1, single_comments = 0\<rparr>"
  "raw_analyze sample_env consts_text =
     Inr \<lparr>loc = 1, lloc = 1, sloc = 1, comments = 0, multi = 0, blank = 0, single_comments = 0\<rparr>"
  using sample_texts_distinct by (simp_all add: sample_env_def lookup_def)

lemma is_import_simps [simp]:
  "is_import (Import names)"
  "is_import (ImportFrom m names)"
  "\<not> is_import (FunctionDef n b)"
  "\<not> is_import (ClassDef n b)"
  "\<not> is_import (If t b1 b2)"
  "\<not> is_import (OtherStmt s)"
  by (simp_all add: is_import_def)

lemma f_def_not_import [simp]: "\<not> is_import f_def"
  by (simp add: f_def_def)

lemma sample_strip:
  "strip_imports sample_env sample_text False = Inr bare_text"
  "strip_imports sample_env plain_text False = Inr bare_text"
  "strip_imports sample_env bare_text False = Inr bare_text"
  "strip_imports sample_env consts_text False = Inr consts_text"
  "strip_imports sample_env broken_text False = Inl (SyntaxError ''invalid syntax (<unknown>, line 1)'')"
  by (simp_all add: strip_imports_def sample_parse sample_unparse)

lemma strip_imports_True: "strip_imports e code True = Inr code"
  by (simp add: strip_imports_def)

lemma sample_cc_try:
  "cc_try sample_env ''sample.py'' False = Inr [(''f'', 1, 1, 2)]"
  "cc_try sample_env ''sample.py'' True = Inr [(''f'', 1, 3, 4)]"
  "cc_try sample_env ''plain.py'' False = Inr [(''f'', 1, 1, 2)]"
  "cc_try sample_env ''plain.py'' True = Inr [(''f'', 1, 3, 4)]"
  "cc_try sample_env ''bare.py'' False = Inr [(''f'', 1, 1, 2)]"
  "cc_try sample_env ''bare.py'' True = Inr [(''f'', 1, 1, 2)]"
  "cc_try sample_env ''consts.py'' False = Inr []"
  "cc_try sample_env ''consts.py'' True = Inr []"
  "cc_try sample_env ''broken.py'' False = Inl (SyntaxError ''invalid syntax (<unknown>, line 1)'')"
  "cc_try sample_env ''broken.py'' True = Inl (SyntaxError ''invalid syntax (<unknown>, line 1)'')"
  "cc_try sample_env ''missing.py'' incl = Inl (FileNotFoundError ''[Errno 2] No such file or directory'')"
  by (simp_all add: cc_try_def sample_read sample_strip sample_visit strip_imports_True
      entry_of_def f_block_def)

lemma sample_raw_try:
  "raw_try sample_env ''sample.py'' =
     Inr [(''sloc'', 3), (''lloc'', 3), (''comments'', 0), (''multi'', 0), (''blank'', 1),
          (''single_comments'', 0)]"
  "raw_try sample_env ''missing.py'' = Inl (FileNotFoundError ''[Errno 2] No such file or directory'')"
  by (simp_all add: raw_try_def sample_read sample_analyze metrics_dict_def)

subsection \<open>Where an analysis fails\<close>

lemma cc_try_Inl_iff:
  "cc_try e fp incl = Inl err \<longleftrightarrow>
     read_file e fp = Inl err
     \<or> (\<exists>code. read_file e fp = Inr code
          \<and> (strip_imports e code incl = Inl err
              \<or> (\<exists>code'. strip_imports e code incl = Inr code' \<and> cc_visit e code' = Inl err)))"
  by (auto simp: cc_try_def split: sum.splits)

lemma strip_imports_Inl_iff:
  "strip_imports e code incl = Inl err \<longleftrightarrow>
     \<not> incl
     \<and> (ast_parse e code = Inl err
        \<or> (\<exists>tree. ast_parse e code = Inr tree
             \<and> ast_unparse e (tree\<lparr>body := remove_imports (body tree) []\<rparr>) = Inl err))"
  by (auto simp: strip_imports_def split: sum.splits)

lemma raw_try_Inl_iff:
  "raw_try e fp = Inl err \<longleftrightarrow>
     read_file e fp = Inl err
     \<or> (\<exists>code. read_file e fp = Inr code \<and> raw_analyze e code = Inl err)"
  by (auto simp: raw_try_def split: sum.splits)

lemma cc_failed:
  "cc_try e fp incl = Inl err \<Longrightarrow>
     calculate_cyclomatic_complexity e fp incl w =
       ([], w\<lparr>opened := opened w @ [fp],
              logs := logs w @ [\<lparr>asctime = clock e (length (logs w)), levelname = ERROR,
                                 message = cc_except_message fp err\<rparr>]\<rparr>)"
  by (simp add: calculate_cyclomatic_complexity_def Let_def logging_error_def logging_emit_def)

lemma raw_failed:
  "raw_try e fp = Inl err \<Longrightarrow>
     calculate_raw_metrics e fp w =
       ([], w\<lparr>opened := opened w @ [fp],
              logs := logs w @ [\<lparr>asctime = clock e (length (logs w)), levelname = ERROR,
                                 message = raw_except_message fp err\<rparr>]\<rparr>)"
  by (simp add: calculate_raw_metrics_def Let_def logging_error_def logging_emit_def)

subsection \<open>The lines of the complexity report\<close>

lemma entry_line_not_warning: "entry_line r \<noteq> warning_line thr"
  by (cases r) (simp add: entry_line_def warning_line_def)

lemma warning_in_entry_lines: "warning_line thr \<in> set (entry_lines thr r) \<longleftrightarrow> thr < fst (snd r)"
  using entry_line_not_warning [of r thr] by (auto simp: entry_lines_def)

lemma complexity_section_eq:
  "complexity_section a rs =
     (if rs \<noteq> [] then
        (''Code Complexity Analysis for '' @ filepath a @ '':'' @ newline)
        # concat (map (entry_lines (threshold a)) rs) @ [newline]
      else [])"
  by (simp add: complexity_section_def report_complexity_def report_entries_stdout world0_def)

lemma str_int_numeral [simp]:
  "str_int 0 = ''0''" "str_int 1 = ''1''" "str_int 2 = ''2''" "str_int 3 = ''3''"
  "str_int 4 = ''4''" "str_int 10 = ''10''" "str_int 11 = ''11''" "str_int 12 = ''12''"
  "str_int 20 = ''20''"
  by (simp_all add: str_int_def str_nat.simps digit_char_def)

subsection \<open>The raw report\<close>

lemma raw_section_eq:
  "raw_section e a =
     (if report_raw a \<and> raw_results e (filepath a) \<noteq> [] then
        (''Raw Code Metrics:'' @ newline) # map metric_line (raw_results e (filepath a)) @ [newline]
      else [])"
  by (simp add: raw_section_def report_raw_metrics_def split_beta report_metrics_stdout
      raw_results_eq world0_def)

lemma raw_try_only_reads_and_analyzes:
  "raw_try (e\<lparr>ast_parse := p, ast_unparse := u, cc_visit := v\<rparr>) fp = raw_try e fp"
  by (simp add: raw_try_def split: sum.splits)

lemma setup_argparse_simps:
  "filepath (setup_argparse c) = arg_filepath c"
  "threshold (setup_argparse c) = (case opt_threshold c of None \<Rightarrow> 10 | Some t \<Rightarrow> t)"
  "report_raw (setup_argparse c) = flag_report_raw c"
  "include_imports (setup_argparse c) = flag_include_imports c"
  by (simp_all add: setup_argparse_def)

lemma sample_raw_results:
  "raw_results sample_env ''sample.py'' =
     [(''sloc'', 3), (''lloc'', 3), (''comments'', 0), (''multi'', 0), (''blank'', 1),
      (''single_comments'', 0)]"
  by (simp add: raw_results_def raw_fst sample_raw_try)

lemma sample_cc_results:
  "cc_results sample_env ''sample.py'' False = [(''f'', 1, 1, 2)]"
  "cc_results sample_env ''sample.py'' True = [(''f'', 1, 3, 4)]"
  "cc_results sample_env ''plain.py'' False = [(''f'', 1, 1, 2)]"
  "cc_results sample_env ''plain.py'' True = [(''f'', 1, 3, 4)]"
  "cc_results sample_env ''bare.py'' False = [(''f'', 1, 1, 2)]"
  "cc_results sample_env ''bare.py'' True = [(''f'', 1, 1, 2)]"
  "cc_results sample_env ''consts.py'' False = []"
  "cc_results sample_env ''consts.py'' True = []"
  "cc_results sample_env ''broken.py'' False = []"
  "cc_results sample_env ''broken.py'' True = []"
  "cc_results sample_env ''missing.py'' incl = []"
  by (simp_all add: cc_results_def cc_fst sample_cc_try)

subsection \<open>What the log holds\<close>

lemma cc_failure_level: "(lv, msg) \<in> set (cc_failure e fp incl) \<Longrightarrow> lv = ERROR"
  by (auto simp: cc_failure_def split: sum.splits)

lemma raw_failure_level: "(lv, msg) \<in> set (raw_failure e fp) \<Longrightarrow> lv = ERROR"
  by (auto simp: raw_failure_def split: sum.splits)

lemma main_reject_log_content:
  "threshold (setup_argparse c) \<le> 0 \<Longrightarrow>
     map log_content (logs (final (main e c))) =
       [(ERROR, ''Complexity threshold must be a positive integer.'')]"
  by (simp add: main_reject logging_error_def world0_def log_content_def)

lemma info_logged_iff:
  "(INFO, msg) \<in> set (map log_content (logs (final (main e c)))) \<longleftrightarrow>
     0 < threshold (setup_argparse c)
     \<and> cc_results e (arg_filepath c) (flag_include_imports c) = []
     \<and> \<not> flag_report_raw c
     \<and> msg = ''No results to display.''"
proof (cases "0 < threshold (setup_argparse c)")
  case True
  show ?thesis
    using True cc_failure_level [of INFO msg e "arg_filepath c" "flag_include_imports c"]
      raw_failure_level [of INFO msg e "arg_filepath c"]
    unfolding main_log_content [OF True]
    by (auto simp: setup_argparse_simps(1,3,4))
next
  case False
  then have "threshold (setup_argparse c) \<le> 0" by simp
  from main_reject_log_content [OF this, of e] False show ?thesis by simp
qed

subsection \<open>The clock reaches the log only\<close>

lemma cc_try_clock: "cc_try (e\<lparr>clock := k\<rparr>) fp incl = cc_try e fp incl"
  by (simp add: cc_try_def strip_imports_def split: sum.splits)

lemma raw_try_clock: "raw_try (e\<lparr>clock := k\<rparr>) fp = raw_try e fp"
  by (simp add: raw_try_def split: sum.splits)

lemma cc_results_clock: "cc_results (e\<lparr>clock := k\<rparr>) fp incl = cc_results e fp incl"
  by (simp add: cc_results_def cc_fst cc_try_clock)

lemma raw_results_clock: "raw_results (e\<lparr>clock := k\<rparr>) fp = raw_results e fp"
  by (simp add: raw_results_def raw_fst raw_try_clock)

lemma raw_section_clock: "raw_section (e\<lparr>clock := k\<rparr>) a = raw_section e a"
  by (simp add: raw_section_eq raw_results_clock)

lemma cc_failure_clock: "cc_failure (e\<lparr>clock := k\<rparr>) fp incl = cc_failure e fp incl"
  by (simp add: cc_failure_def cc_try_clock)

lemma raw_failure_clock: "raw_failure (e\<lparr>clock := k\<rparr>) fp = raw_failure e fp"
  by (simp add: raw_failure_def raw_try_clock)

subsection \<open>An empty list of results\<close>

lemma complexity_section_Nil: "complexity_section a [] = []"
  by (simp add: complexity_section_eq)

lemma cc_succeeded:
  "cc_try e fp incl = Inr rs \<Longrightarrow>
     calculate_cyclomatic_complexity e fp incl w = (rs, w\<lparr>opened := opened w @ [fp]\<rparr>)"
  by (simp add: calculate_cyclomatic_complexity_def Let_def)

subsection \<open>The text analysed without the flag\<close>

lemma strip_imports_False:
  "ast_parse e code = Inr tree \<Longrightarrow>
     strip_imports e code False =
       ast_unparse e (tree\<lparr>body := filter (\<lambda>node. \<not> is_import node) (body tree)\<rparr>)"
  by (simp add: strip_imports_def remove_imports_filter)

section \<open>The claims\<close>


text \<open>
  C1. Without \<^verbatim>\<open>--include-imports\<close>, when the text parses, the loop over the module
  body keeps exactly the statements that are neither \<^verbatim>\<open>Import\<close> nor \<^verbatim>\<open>ImportFrom\<close>, in
  their order, and the text analysed is the unparsing of the tree with that body. With
  \<^verbatim>\<open>--include-imports\<close> the text read from the file goes to the complexity visitor as
  it is.
\<close>

theorem strip_removes_top_level_imports:
  "(ast_parse e code = Inr tree \<longrightarrow>
      remove_imports (body tree) [] = filter (\<lambda>node. \<not> is_import node) (body tree)
      \<and> strip_imports e code False =
          ast_unparse e (tree\<lparr>body := filter (\<lambda>node. \<not> is_import node) (body tree)\<rparr>))
   \<and> (is_import node \<longleftrightarrow>
        (\<exists>names. node = Import names) \<or> (\<exists>m names. node = ImportFrom m names))
   \<and> strip_imports e code True = Inr code
   \<and> (read_file e fp = Inr code \<longrightarrow>
        cc_try e fp True =
          (case cc_visit e code of Inl err \<Rightarrow> Inl err | Inr results \<Rightarrow> Inr (map entry_of results)))
   \<and> (read_file e fp = Inr code \<and> ast_parse e code = Inr tree \<longrightarrow>
        cc_try e fp False =
          (case ast_unparse e (tree\<lparr>body := filter (\<lambda>node. \<not> is_import node) (body tree)\<rparr>) of
             Inl err \<Rightarrow> Inl err
           | Inr code' \<Rightarrow>
               (case cc_visit e code' of
                  Inl err \<Rightarrow> Inl err
                | Inr results \<Rightarrow> Inr (map entry_of results))))
   \<and> (read_file e fp = Inr code \<and> ast_parse e code = Inl err \<longrightarrow> cc_try e fp False = Inl err)
   \<and> fst (calculate_cyclomatic_complexity e fp incl w) =
       (case cc_try e fp incl of Inl err \<Rightarrow> [] | Inr rs \<Rightarrow> rs)"
proof -
  have loop: "remove_imports (body tree) [] = filter (\<lambda>node. \<not> is_import node) (body tree)"
    by (simp add: remove_imports_filter)
  have cls: "is_import node \<longleftrightarrow>
        (\<exists>names. node = Import names) \<or> (\<exists>m names. node = ImportFrom m names)"
    by (cases node) simp_all
  have keep: "strip_imports e code True = Inr code"
    by (rule strip_imports_True)
  have pass: "read_file e fp = Inr code \<Longrightarrow>
        cc_try e fp True =
          (case cc_visit e code of Inl err \<Rightarrow> Inl err | Inr results \<Rightarrow> Inr (map entry_of results))"
    by (simp add: cc_try_def keep)
  have stripped: "cc_try e fp False =
          (case ast_unparse e (tree\<lparr>body := filter (\<lambda>node. \<not> is_import node) (body tree)\<rparr>) of
             Inl err \<Rightarrow> Inl err
           | Inr code' \<Rightarrow>
               (case cc_visit e code' of
                  Inl err \<Rightarrow> Inl err
                | Inr results \<Rightarrow> Inr (map entry_of results)))"
    if "read_file e fp = Inr code" "ast_parse e code = Inr tree"
    using that by (simp add: cc_try_def strip_imports_False)
  have unparsed: "cc_try e fp False = Inl err"
    if "read_file e fp = Inr code" "ast_parse e code = Inl err"
    using that by (simp add: cc_try_def strip_imports_def)
  have res: "fst (calculate_cyclomatic_complexity e fp incl w) =
       (case cc_try e fp incl of Inl err \<Rightarrow> [] | Inr rs \<Rightarrow> rs)"
    by (rule cc_fst)
  from loop cls keep pass stripped unparsed res show ?thesis
    by (simp add: strip_imports_def)
qed

text \<open>
  Two runs of C1. On a body whose second statement is a function with an import
  inside, the two imports of the module body go and the one inside the function stays.
  On the first recorded file the visitor receives the text of the file with
  \<^verbatim>\<open>--include-imports\<close> and the rendering of the function alone without it.
\<close>

theorem strip_removes_top_level_imports_witness:
  "ast_parse (sample_env\<lparr>ast_parse := \<lambda>s. Inr \<lparr>body = nested_body, type_ignores = []\<rparr>\<rparr>) sample_text
     = Inr \<lparr>body = nested_body, type_ignores = []\<rparr>
   \<and> remove_imports nested_body [] = [FunctionDef ''g'' [Import [''sys'']], OtherStmt ''x = 1'']
   \<and> read_file sample_env ''sample.py'' = Inr sample_text
   \<and> ast_parse sample_env sample_text = Inr \<lparr>body = [Import [''os''], f_def], type_ignores = []\<rparr>
   \<and> remove_imports [Import [''os''], f_def] [] = [f_def]
   \<and> strip_imports sample_env sample_text False = Inr bare_text
   \<and> cc_try sample_env ''sample.py'' True = Inr [(''f'', 1, 3, 4)]
   \<and> cc_try sample_env ''sample.py'' False = Inr [(''f'', 1, 1, 2)]
   \<and> fst (calculate_cyclomatic_complexity sample_env ''sample.py'' False world0) =
       [(''f'', 1, 1, 2)]
   \<and> read_file sample_env ''broken.py'' = Inr broken_text
   \<and> ast_parse sample_env broken_text = Inl (SyntaxError ''invalid syntax (<unknown>, line 1)'')
   \<and> cc_try sample_env ''broken.py'' False =
       Inl (SyntaxError ''invalid syntax (<unknown>, line 1)'')"
proof -
  let ?e = "sample_env\<lparr>ast_parse := \<lambda>s. Inr \<lparr>body = nested_body, type_ignores = []\<rparr>\<rparr>"
  let ?t = "\<lparr>body = [Import [''os''], f_def], type_ignores = []\<rparr>"
  let ?err = "SyntaxError ''invalid syntax (<unknown>, line 1)''"
  have p: "ast_parse ?e sample_text = Inr \<lparr>body = nested_body, type_ignores = []\<rparr>"
    by simp
  have nested: "remove_imports nested_body [] =
      [FunctionDef ''g'' [Import [''sys'']], OtherStmt ''x = 1'']"
    using strip_removes_top_level_imports
            [where e = ?e and code = sample_text
               and tree = "\<lparr>body = nested_body, type_ignores = []\<rparr>"
               and node = "Import []" and fp = "''sample.py''" and incl = True and w = world0
               and err = ?err]
          p
    by (simp add: nested_body_def)
  have u: "ast_unparse sample_env (?t\<lparr>body := filter (\<lambda>node. \<not> is_import node) (body ?t)\<rparr>)
             = Inr bare_text"
    by (simp add: sample_unparse)
  from strip_removes_top_level_imports
         [where e = sample_env and code = sample_text and tree = ?t and fp = "''sample.py''"
            and incl = False and w = world0 and node = "Import []" and err = ?err]
       strip_removes_top_level_imports
         [where e = sample_env and code = broken_text and fp = "''broken.py''" and err = ?err
            and tree = ?t and node = "Import []" and incl = False and w = world0]
       nested p sample_read(1,5) sample_parse(1,5) u sample_visit(1,3)
  show ?thesis
    by (simp add: entry_of_def f_block_def)
qed

text \<open>
  C2. An exception in the analysis stage is one raised by reading the file, parsing,
  unparsing, or either analyser; the first three conjuncts say where the body of each
  \<^verbatim>\<open>try\<close> fails. Each such exception is caught: the function returns the empty result
  and adds one error record to the log, printing nothing. A run that passes the check
  of the threshold always ends with the exit code 0.
\<close>

theorem analysis_errors_are_caught:
  "(cc_try e fp incl = Inl err \<longleftrightarrow>
      read_file e fp = Inl err
      \<or> (\<exists>code. read_file e fp = Inr code
           \<and> (strip_imports e code incl = Inl err
               \<or> (\<exists>code'. strip_imports e code incl = Inr code' \<and> cc_visit e code' = Inl err))))
   \<and> (strip_imports e code incl = Inl err \<longleftrightarrow>
        \<not> incl
        \<and> (ast_parse e code = Inl err
           \<or> (\<exists>tree. ast_parse e code = Inr tree
                \<and> ast_unparse e (tree\<lparr>body := remove_imports (body tree) []\<rparr>) = Inl err)))
   \<and> (raw_try e fp = Inl err \<longleftrightarrow>
        read_file e fp = Inl err
        \<or> (\<exists>code. read_file e fp = Inr code \<and> raw_analyze e code = Inl err))
   \<and> (cc_try e fp incl = Inl err \<longrightarrow>
        calculate_cyclomatic_complexity e fp incl w =
          ([], w\<lparr>opened := opened w @ [fp],
                 logs := logs w @ [\<lparr>asctime = clock e (length (logs w)), levelname = ERROR,
                                    message = cc_except_message fp err\<rparr>]\<rparr>))
   \<and> (raw_try e fp = Inl err \<longrightarrow>
        calculate_raw_metrics e fp w =
          ([], w\<lparr>opened := opened w @ [fp],
                 logs := logs w @ [\<lparr>asctime = clock e (length (logs w)), levelname = ERROR,
                                    message = raw_except_message fp err\<rparr>]\<rparr>))
   \<and> (0 < threshold (setup_argparse c) \<longrightarrow> exit_code (main e c) = 0)"
proof -
  have "0 < threshold (setup_argparse c) \<longrightarrow> exit_code (main e c) = 0"
    by (simp add: main_exit_code)
  with cc_try_Inl_iff [of e fp incl err] strip_imports_Inl_iff [of e code incl err]
    raw_try_Inl_iff [of e fp err] cc_failed [of e fp incl err w] raw_failed [of e fp err w]
  show ?thesis by blast
qed

text \<open>C2 on a path that does not exist, with \<^verbatim>\<open>--report-raw\<close>.\<close>

theorem analysis_errors_are_caught_witness:
  "cc_try sample_env ''missing.py'' False = Inl (FileNotFoundError ''[Errno 2] No such file or directory'')
   \<and> raw_try sample_env ''missing.py'' = Inl (FileNotFoundError ''[Errno 2] No such file or directory'')
   \<and> calculate_cyclomatic_complexity sample_env ''missing.py'' False world0 =
       ([], \<lparr>stdout = [],
             logs = [\<lparr>asctime = ''2024-01-01 00:00:00,000'', levelname = ERROR,
                      message = ''File not found: missing.py''\<rparr>],
             opened = [''missing.py'']\<rparr>)
   \<and> calculate_raw_metrics sample_env ''missing.py'' world0 =
       ([], \<lparr>stdout = [],
             logs = [\<lparr>asctime = ''2024-01-01 00:00:00,000'', levelname = ERROR,
                      message = ''File not found: missing.py''\<rparr>],
             opened = [''missing.py'']\<rparr>)
   \<and> 0 < threshold (setup_argparse
           \<lparr>arg_filepath = ''missing.py'', opt_threshold = None, flag_report_raw = True,
            flag_include_imports = False\<rparr>)
   \<and> exit_code (main sample_env
           \<lparr>arg_filepath = ''missing.py'', opt_threshold = None, flag_report_raw = True,
            flag_include_imports = False\<rparr>) = 0"
proof -
  let ?c = "\<lparr>arg_filepath = ''missing.py'', opt_threshold = None, flag_report_raw = True,
            flag_include_imports = False\<rparr>"
  let ?err = "FileNotFoundError ''[Errno 2] No such file or directory''"
  have a: "cc_try sample_env ''missing.py'' False = Inl ?err"
    by (rule sample_cc_try)
  have b: "raw_try sample_env ''missing.py'' = Inl ?err"
    by (rule sample_raw_try)
  have t: "0 < threshold (setup_argparse ?c)"
    by (simp add: setup_argparse_def)
  have k: "clock sample_env 0 = ''2024-01-01 00:00:00,000''"
    by (simp add: sample_env_def)
  from analysis_errors_are_caught
         [of sample_env "''missing.py''" False ?err sample_text world0 ?c] a b t k
  show ?thesis
    by (simp add: world0_def cc_except_message_def raw_except_message_def)
qed

text \<open>
  C3. The loop of the reporter writes, for each entry in order, the entry's line and
  then the warning line exactly when the complexity is strictly above the threshold:
  an entry at the threshold has no warning, one at the threshold plus one has it. The
  last conjunct is the same for the whole run: the threshold is the one of the request.
\<close>

theorem warning_iff_above_threshold:
  "stdout (report_entries thr rs w) = stdout w @ concat (map (entry_lines thr) rs)
   \<and> (warning_line thr \<in> set (entry_lines thr r) \<longleftrightarrow> thr < fst (snd r))
   \<and> (stdout (report_entries thr [(n, c, l, el)] w) =
         stdout w @ [entry_line (n, c, l, el), warning_line thr] \<longleftrightarrow> thr < c)
   \<and> (stdout (report_entries thr [(n, c, l, el)] w) =
         stdout w @ [entry_line (n, c, l, el)] \<longleftrightarrow> \<not> thr < c)
   \<and> stdout (report_entries thr [(n, thr, l, el)] w) = stdout w @ [entry_line (n, thr, l, el)]
   \<and> stdout (report_entries thr [(n, thr + 1, l, el)] w) =
         stdout w @ [entry_line (n, thr + 1, l, el), warning_line thr]
   \<and> (0 < threshold (setup_argparse cl)
        \<and> cc_results e (filepath (setup_argparse cl)) (include_imports (setup_argparse cl)) \<noteq> []
       \<longrightarrow> stdout (final (main e cl)) =
             (''Code Complexity Analysis for '' @ filepath (setup_argparse cl) @ '':'' @ newline)
             # concat (map (entry_lines (threshold (setup_argparse cl)))
                  (cc_results e (filepath (setup_argparse cl)) (include_imports (setup_argparse cl))))
             @ [newline] @ raw_section e (setup_argparse cl))"
proof -
  have loop: "stdout (report_entries thr rs w) = stdout w @ concat (map (entry_lines thr) rs)"
    by (rule report_entries_stdout)
  have one: "stdout (report_entries thr [(n, c', l, el)] w) =
      stdout w @ entry_line (n, c', l, el) # (if thr < c' then [warning_line thr] else [])" for c'
    by (simp add: Let_def)
  have whole: "0 < threshold (setup_argparse cl)
        \<and> cc_results e (filepath (setup_argparse cl)) (include_imports (setup_argparse cl)) \<noteq> []
       \<longrightarrow> stdout (final (main e cl)) =
             (''Code Complexity Analysis for '' @ filepath (setup_argparse cl) @ '':'' @ newline)
             # concat (map (entry_lines (threshold (setup_argparse cl)))
                  (cc_results e (filepath (setup_argparse cl)) (include_imports (setup_argparse cl))))
             @ [newline] @ raw_section e (setup_argparse cl)"
    by (simp add: main_stdout complexity_section_eq)
  show ?thesis
    using loop warning_in_entry_lines [of thr r] one [of c] one [of thr] one [of "thr + 1"] whole
    by simp
qed

text \<open>C3 on the scenario, and on a list with one entry at the threshold and one above.\<close>

theorem warning_iff_above_threshold_witness:
  "0 < threshold (setup_argparse scenario_cli)
   \<and> cc_results scenario_env (filepath (setup_argparse scenario_cli))
        (include_imports (setup_argparse scenario_cli)) \<noteq> []
   \<and> stdout (final (main scenario_env scenario_cli)) =
       [''Code Complexity Analysis for sample.py:'' @ newline,
        ''  - f (lines 1-20): Complexity = 12'',
        ''    Warning: Complexity exceeds threshold (10)!'',
        newline]
   \<and> stdout (report_entries 10 [(''f'', 10, 1, 4), (''g'', 11, 10, 20)] world0) =
       [''  - f (lines 1-4): Complexity = 10'',
        ''  - g (lines 10-20): Complexity = 11'',
        ''    Warning: Complexity exceeds threshold (10)!'']"
proof -
  have t: "threshold (setup_argparse scenario_cli) = 10"
    "filepath (setup_argparse scenario_cli) = ''sample.py''"
    "include_imports (setup_argparse scenario_cli)"
    "\<not> report_raw (setup_argparse scenario_cli)"
    by (simp_all add: setup_argparse_def scenario_cli_def)
  have r: "cc_results scenario_env ''sample.py'' True = [(''f'', 12, 1, 20)]"
    by (simp add: cc_results_def cc_fst cc_try_def scenario_env_def sample_read
        strip_imports_True entry_of_def)
  have s: "raw_section scenario_env (setup_argparse scenario_cli) = []"
    by (simp add: raw_section_def report_raw_metrics_def t world0_def)
  from warning_iff_above_threshold
         [of 10 "[(''f'', 10, 1, 4), (''g'', 11, 10, 20)]" world0 "(''f'', 12, 1, 20)"
             "''f''" 12 1 20 scenario_cli scenario_env]
       t r s
  show ?thesis
    by (simp add: entry_lines_def entry_line_def warning_line_def world0_def)
qed

text \<open>
  C4. With a threshold of zero or less the run ends with the exit code 1 after one
  error record; nothing is printed and no file is opened. Without \<^verbatim>\<open>--threshold\<close> the
  threshold is 10.
\<close>

theorem nonpositive_threshold_exits:
  "(threshold (setup_argparse c) \<le> 0 \<longrightarrow>
      main e c =
        \<lparr>exit_code = 1,
         final = \<lparr>stdout = [],
                  logs = [\<lparr>asctime = clock e 0, levelname = ERROR,
                           message = ''Complexity threshold must be a positive integer.''\<rparr>],
                  opened = []\<rparr>\<rparr>)
   \<and> (opt_threshold c = None \<longrightarrow> threshold (setup_argparse c) = 10)
   \<and> (opt_threshold c = Some t \<longrightarrow> threshold (setup_argparse c) = t)"
  by (simp add: main_reject logging_error_def logging_emit_def world0_def)
     (simp add: setup_argparse_def)

text \<open>C4 with \<^verbatim>\<open>--threshold -5\<close>, with \<^verbatim>\<open>--threshold 0\<close>, and without the option.\<close>

theorem nonpositive_threshold_exits_witness:
  "threshold (setup_argparse
      \<lparr>arg_filepath = ''sample.py'', opt_threshold = Some (- 5), flag_report_raw = True,
       flag_include_imports = False\<rparr>) \<le> 0
   \<and> main sample_env
      \<lparr>arg_filepath = ''sample.py'', opt_threshold = Some (- 5), flag_report_raw = True,
       flag_include_imports = False\<rparr> =
      \<lparr>exit_code = 1,
       final = \<lparr>stdout = [],
                logs = [\<lparr>asctime = ''2024-01-01 00:00:00,000'', levelname = ERROR,
                         message = ''Complexity threshold must be a positive integer.''\<rparr>],
                opened = []\<rparr>\<rparr>
   \<and> threshold (setup_argparse
      \<lparr>arg_filepath = ''sample.py'', opt_threshold = Some 0, flag_report_raw = False,
       flag_include_imports = False\<rparr>) \<le> 0
   \<and> exit_code (main sample_env
      \<lparr>arg_filepath = ''sample.py'', opt_threshold = Some 0, flag_report_raw = False,
       flag_include_imports = False\<rparr>) = 1
   \<and> threshold (setup_argparse scenario_cli) = 10"
proof -
  let ?c5 = "\<lparr>arg_filepath = ''sample.py'', opt_threshold = Some (- 5), flag_report_raw = True,
       flag_include_imports = False\<rparr>"
  let ?c0 = "\<lparr>arg_filepath = ''sample.py'', opt_threshold = Some 0, flag_report_raw = False,
       flag_include_imports = False\<rparr>"
  have h5: "threshold (setup_argparse ?c5) \<le> 0" and h0: "threshold (setup_argparse ?c0) \<le> 0"
    by (simp_all add: setup_argparse_def)
  have n: "opt_threshold scenario_cli = None"
    by (simp add: scenario_cli_def)
  have k: "clock sample_env 0 = ''2024-01-01 00:00:00,000''"
    by (simp add: sample_env_def)
  from nonpositive_threshold_exits [of ?c5 sample_env 0]
       nonpositive_threshold_exits [of ?c0 sample_env 0]
       nonpositive_threshold_exits [of scenario_cli sample_env 0] h5 h0 n k
  show ?thesis by simp
qed

text \<open>
  C5. The raw metrics are those of the text read from the file: the function calls
  neither the parser nor the unparser nor the complexity visitor, so no stripped text
  can reach it. What the run prints after the complexity report is a function of the
  file and of \<^verbatim>\<open>--report-raw\<close> alone, the same with and without \<^verbatim>\<open>--include-imports\<close>.
\<close>

theorem raw_metrics_ignore_include_imports:
  "(read_file e fp = Inr code \<and> raw_analyze e code = Inr m \<longrightarrow>
      fst (calculate_raw_metrics e fp w) = metrics_dict m)
   \<and> calculate_raw_metrics (e\<lparr>ast_parse := p, ast_unparse := u, cc_visit := v\<rparr>) fp w =
       calculate_raw_metrics e fp w
   \<and> raw_section e (setup_argparse c) =
       (if flag_report_raw c \<and> raw_results e (arg_filepath c) \<noteq> [] then
          (''Raw Code Metrics:'' @ newline)
          # map metric_line (raw_results e (arg_filepath c)) @ [newline]
        else [])
   \<and> (0 < threshold (setup_argparse c) \<longrightarrow>
        stdout (final (main e (c\<lparr>flag_include_imports := b\<rparr>))) =
          complexity_section (setup_argparse (c\<lparr>flag_include_imports := b\<rparr>))
            (cc_results e (arg_filepath c) b)
          @ raw_section e (setup_argparse c))"
proof -
  have orig: "read_file e fp = Inr code \<and> raw_analyze e code = Inr m \<longrightarrow>
      fst (calculate_raw_metrics e fp w) = metrics_dict m"
    by (simp add: raw_fst raw_try_def)
  have indep: "calculate_raw_metrics (e\<lparr>ast_parse := p, ast_unparse := u, cc_visit := v\<rparr>) fp w =
       calculate_raw_metrics e fp w"
    by (simp add: calculate_raw_metrics_def raw_try_only_reads_and_analyzes logging_error_def
        logging_emit_def Let_def split: sum.splits)
  have sect: "raw_section e (setup_argparse (c\<lparr>flag_include_imports := b\<rparr>)) =
      raw_section e (setup_argparse c)"
    by (simp add: raw_section_eq setup_argparse_simps)
  have run: "0 < threshold (setup_argparse c) \<longrightarrow>
        stdout (final (main e (c\<lparr>flag_include_imports := b\<rparr>))) =
          complexity_section (setup_argparse (c\<lparr>flag_include_imports := b\<rparr>))
            (cc_results e (arg_filepath c) b)
          @ raw_section e (setup_argparse c)"
    using main_stdout [of "c\<lparr>flag_include_imports := b\<rparr>" e] sect
    by (simp add: setup_argparse_simps)
  from orig indep run show ?thesis
    by (simp add: raw_section_eq setup_argparse_simps)
qed

text \<open>C5 on the first recorded file: two complexity reports, one raw report.\<close>

theorem raw_metrics_ignore_include_imports_witness:
  "read_file sample_env ''sample.py'' = Inr sample_text
   \<and> raw_analyze sample_env sample_text =
       Inr \<lparr>loc = 4, lloc = 3, sloc = 3, comments = 0, multi = 0, blank = 1, single_comments = 0\<rparr>
   \<and> 0 < threshold (setup_argparse raw_cli)
   \<and> stdout (final (main sample_env (raw_cli\<lparr>flag_include_imports := True\<rparr>))) =
       [''Code Complexity Analysis for sample.py:'' @ newline,
        ''  - f (lines 3-4): Complexity = 1'', newline] @ sample_raw_lines
   \<and> stdout (final (main sample_env (raw_cli\<lparr>flag_include_imports := False\<rparr>))) =
       [''Code Complexity Analysis for sample.py:'' @ newline,
        ''  - f (lines 1-2): Complexity = 1'', newline] @ sample_raw_lines"
proof -
  let ?m = "\<lparr>loc = 4, lloc = 3, sloc = 3, comments = 0, multi = 0, blank = 1, single_comments = 0\<rparr>"
  have t: "0 < threshold (setup_argparse raw_cli)"
    by (simp add: setup_argparse_def raw_cli_def)
  have a: "arg_filepath raw_cli = ''sample.py''" "flag_report_raw raw_cli"
    by (simp_all add: raw_cli_def)
  have th: "threshold (setup_argparse (raw_cli\<lparr>flag_include_imports := b\<rparr>)) = 10"
    "filepath (setup_argparse (raw_cli\<lparr>flag_include_imports := b\<rparr>)) = ''sample.py''" for b
    by (simp_all add: setup_argparse_def raw_cli_def)
  from raw_metrics_ignore_include_imports
         [where e = sample_env and fp = "''sample.py''" and code = sample_text and m = ?m
            and w = world0 and p = "\<lambda>s. Inr \<lparr>body = [], type_ignores = []\<rparr>"
            and u = "\<lambda>t. Inr []" and v = "\<lambda>s. Inr []" and c = raw_cli and b = True]
       raw_metrics_ignore_include_imports
         [where e = sample_env and fp = "''sample.py''" and code = sample_text and m = ?m
            and w = world0 and p = "\<lambda>s. Inr \<lparr>body = [], type_ignores = []\<rparr>"
            and u = "\<lambda>t. Inr []" and v = "\<lambda>s. Inr []" and c = raw_cli and b = False]
       t a th sample_read(1) sample_analyze(1) sample_raw_results sample_cc_results(1,2)
  show ?thesis
    by (simp add: complexity_section_eq entry_lines_def entry_line_def metric_line_def
        sample_raw_lines_def)
qed

text \<open>
  C7. In a run that passes the check of the threshold, the record
  \<^verbatim>\<open>INFO - No results to display.\<close> is in the log exactly when the list of complexity
  results is empty and \<^verbatim>\<open>--report-raw\<close> is absent. It is the only record of that level,
  and a run that fails the check of the threshold never logs it.
\<close>

theorem no_results_message_iff:
  "(0 < threshold (setup_argparse c) \<longrightarrow>
      ((INFO, ''No results to display.'') \<in> set (map log_content (logs (final (main e c)))) \<longleftrightarrow>
         cc_results e (arg_filepath c) (flag_include_imports c) = [] \<and> \<not> flag_report_raw c))
   \<and> ((INFO, msg) \<in> set (map log_content (logs (final (main e c)))) \<longrightarrow>
         msg = ''No results to display.'' \<and> 0 < threshold (setup_argparse c))"
  using info_logged_iff [of "''No results to display.''" e c] info_logged_iff [of msg e c]
  by blast

text \<open>
  C7 on a path that does not exist (the scenario of the specification), on the same
  path with \<^verbatim>\<open>--report-raw\<close>, and on a file with a function.
\<close>

theorem no_results_message_iff_witness:
  "0 < threshold (setup_argparse
      \<lparr>arg_filepath = ''missing.py'', opt_threshold = None, flag_report_raw = False,
       flag_include_imports = False\<rparr>)
   \<and> cc_results sample_env ''missing.py'' False = []
   \<and> map log_content (logs (final (main sample_env
      \<lparr>arg_filepath = ''missing.py'', opt_threshold = None, flag_report_raw = False,
       flag_include_imports = False\<rparr>))) =
       [(ERROR, ''File not found: missing.py''), (INFO, ''No results to display.'')]
   \<and> (INFO, ''No results to display.'') \<in> set (map log_content (logs (final (main sample_env
      \<lparr>arg_filepath = ''missing.py'', opt_threshold = None, flag_report_raw = False,
       flag_include_imports = False\<rparr>))))
   \<and> (INFO, ''No results to display.'') \<notin> set (map log_content (logs (final (main sample_env
      \<lparr>arg_filepath = ''missing.py'', opt_threshold = None, flag_report_raw = True,
       flag_include_imports = False\<rparr>))))
   \<and> cc_results sample_env ''sample.py'' False \<noteq> []
   \<and> (INFO, ''No results to display.'') \<notin> set (map log_content (logs (final (main sample_env
      \<lparr>arg_filepath = ''sample.py'', opt_threshold = None, flag_report_raw = False,
       flag_include_imports = False\<rparr>))))"
proof -
  let ?c1 = "\<lparr>arg_filepath = ''missing.py'', opt_threshold = None, flag_report_raw = False,
       flag_include_imports = False\<rparr>"
  let ?c2 = "\<lparr>arg_filepath = ''missing.py'', opt_threshold = None, flag_report_raw = True,
       flag_include_imports = False\<rparr>"
  let ?c3 = "\<lparr>arg_filepath = ''sample.py'', opt_threshold = None, flag_report_raw = False,
       flag_include_imports = False\<rparr>"
  have t: "0 < threshold (setup_argparse ?c1)" "0 < threshold (setup_argparse ?c2)"
    "0 < threshold (setup_argparse ?c3)"
    by (simp_all add: setup_argparse_def)
  have l: "map log_content (logs (final (main sample_env ?c1))) =
       [(ERROR, ''File not found: missing.py''), (INFO, ''No results to display.'')]"
    by (simp add: main_log_content [OF t(1)] setup_argparse_simps cc_failure_def sample_cc_try
        sample_cc_results cc_except_message_def)
  from no_results_message_iff [of ?c1 sample_env "''No results to display.''"]
       no_results_message_iff [of ?c2 sample_env "''No results to display.''"]
       no_results_message_iff [of ?c3 sample_env "''No results to display.''"]
       t l sample_cc_results
  show ?thesis by simp
qed

text \<open>
  C8. The file system and the libraries are functions of their arguments here, so two
  runs on the same arguments and files differ at most in the time stamps that the
  logging module takes from the clock. Whatever the clock, the run prints the same
  lines, ends with the same exit code, opens the same files and logs the same levels
  and messages.
\<close>

theorem output_independent_of_time:
  "stdout (final (main (e\<lparr>clock := k\<rparr>) c)) = stdout (final (main e c))
   \<and> exit_code (main (e\<lparr>clock := k\<rparr>) c) = exit_code (main e c)
   \<and> opened (final (main (e\<lparr>clock := k\<rparr>) c)) = opened (final (main e c))
   \<and> map log_content (logs (final (main (e\<lparr>clock := k\<rparr>) c))) =
       map log_content (logs (final (main e c)))"
proof (cases "0 < threshold (setup_argparse c)")
  case True
  show ?thesis
    by (simp add: main_stdout [OF True] main_opened [OF True] main_log_content [OF True]
        main_exit_code cc_results_clock raw_section_clock cc_failure_clock raw_failure_clock)
next
  case False
  then have le: "threshold (setup_argparse c) \<le> 0" by simp
  show ?thesis
    by (simp add: main_reject [OF le] logging_error_def world0_def log_content_def)
qed

text \<open>
  C8 on two runs at different times: the same output and exit code; on a missing file
  the two logs differ, in their time stamps.
\<close>

theorem output_independent_of_time_witness:
  "stdout (final (main (sample_env\<lparr>clock := later_clock\<rparr>) raw_cli)) =
     stdout (final (main sample_env raw_cli))
   \<and> stdout (final (main sample_env raw_cli)) =
       [''Code Complexity Analysis for sample.py:'' @ newline,
        ''  - f (lines 1-2): Complexity = 1'', newline] @ sample_raw_lines
   \<and> exit_code (main (sample_env\<lparr>clock := later_clock\<rparr>) raw_cli) = 0
   \<and> exit_code (main sample_env raw_cli) = 0
   \<and> logs (final (main sample_env (raw_cli\<lparr>arg_filepath := ''missing.py''\<rparr>))) \<noteq>
       logs (final (main (sample_env\<lparr>clock := later_clock\<rparr>)
         (raw_cli\<lparr>arg_filepath := ''missing.py''\<rparr>)))"
proof -
  have t: "0 < threshold (setup_argparse raw_cli)"
    "0 < threshold (setup_argparse (raw_cli\<lparr>arg_filepath := ''missing.py''\<rparr>))"
    by (simp_all add: setup_argparse_def raw_cli_def)
  have s: "stdout (final (main sample_env raw_cli)) =
       [''Code Complexity Analysis for sample.py:'' @ newline,
        ''  - f (lines 1-2): Complexity = 1'', newline] @ sample_raw_lines"
    unfolding main_stdout [OF t(1)]
    by (simp add: setup_argparse_simps raw_cli_def sample_cc_results
        complexity_section_eq raw_section_eq sample_raw_results entry_lines_def entry_line_def
        metric_line_def sample_raw_lines_def)
  have x: "exit_code (main sample_env raw_cli) = 0"
    using t(1) by (simp add: main_exit_code)
  have m: "cc_try e ''missing.py'' False =
      Inl (FileNotFoundError ''[Errno 2] No such file or directory'')"
    if "read_file e = read_file sample_env" for e
    using that sample_read(6) by (simp add: cc_try_def)
  have l: "logs (final (main sample_env (raw_cli\<lparr>arg_filepath := ''missing.py''\<rparr>))) \<noteq>
       logs (final (main (sample_env\<lparr>clock := later_clock\<rparr>)
         (raw_cli\<lparr>arg_filepath := ''missing.py''\<rparr>)))"
    using t(2)
    by (simp add: main_def Let_def split_beta setup_argparse_simps raw_cli_def
        report_raw_metrics_def raw_try_clock sample_raw_try m world0_def later_clock_def
        sample_env_def)
  from output_independent_of_time [where e = sample_env and k = later_clock and c = raw_cli] s x l
  show ?thesis by simp
qed

text \<open>
  C10. A file whose analysis fails and a file whose analysis finds no block both give
  the empty list; the first adds an error record to the log, the second adds nothing.
  The complexity report prints nothing for an empty list, so what such a run prints is
  the raw report alone. Without \<^verbatim>\<open>--report-raw\<close> the two runs print the same (nothing)
  and end with the same exit code; their logs differ by the error record.
\<close>

theorem empty_list_hides_failure:
  "(cc_try e fp1 incl = Inl err \<and> cc_try e fp2 incl = Inr [] \<longrightarrow>
      calculate_cyclomatic_complexity e fp1 incl w =
        ([], w\<lparr>opened := opened w @ [fp1],
               logs := logs w @ [\<lparr>asctime = clock e (length (logs w)), levelname = ERROR,
                                  message = cc_except_message fp1 err\<rparr>]\<rparr>)
      \<and> calculate_cyclomatic_complexity e fp2 incl w = ([], w\<lparr>opened := opened w @ [fp2]\<rparr>)
      \<and> fst (calculate_cyclomatic_complexity e fp1 incl w) =
          fst (calculate_cyclomatic_complexity e fp2 incl w))
   \<and> report_complexity a [] w = w
   \<and> (0 < threshold (setup_argparse c)
        \<and> cc_results e (arg_filepath c) (flag_include_imports c) = [] \<longrightarrow>
        stdout (final (main e c)) = raw_section e (setup_argparse c))
   \<and> (0 < threshold (setup_argparse c1) \<and> \<not> flag_report_raw c1
        \<and> cc_try e (arg_filepath c1) (flag_include_imports c1) = Inl err
        \<and> 0 < threshold (setup_argparse c2) \<and> \<not> flag_report_raw c2
        \<and> cc_try e (arg_filepath c2) (flag_include_imports c2) = Inr [] \<longrightarrow>
        stdout (final (main e c1)) = [] \<and> stdout (final (main e c2)) = []
        \<and> exit_code (main e c1) = exit_code (main e c2)
        \<and> map log_content (logs (final (main e c1))) =
            [(ERROR, cc_except_message (arg_filepath c1) err), (INFO, ''No results to display.'')]
        \<and> map log_content (logs (final (main e c2))) = [(INFO, ''No results to display.'')])"
proof -
  have A: "cc_try e fp1 incl = Inl err \<and> cc_try e fp2 incl = Inr [] \<longrightarrow>
      calculate_cyclomatic_complexity e fp1 incl w =
        ([], w\<lparr>opened := opened w @ [fp1],
               logs := logs w @ [\<lparr>asctime = clock e (length (logs w)), levelname = ERROR,
                                  message = cc_except_message fp1 err\<rparr>]\<rparr>)
      \<and> calculate_cyclomatic_complexity e fp2 incl w = ([], w\<lparr>opened := opened w @ [fp2]\<rparr>)
      \<and> fst (calculate_cyclomatic_complexity e fp1 incl w) =
          fst (calculate_cyclomatic_complexity e fp2 incl w)"
    by (simp add: cc_failed cc_succeeded)
  have B: "report_complexity a [] w = w"
    by (simp add: report_complexity_def)
  have C: "0 < threshold (setup_argparse c)
        \<and> cc_results e (arg_filepath c) (flag_include_imports c) = [] \<longrightarrow>
        stdout (final (main e c)) = raw_section e (setup_argparse c)"
    by (simp add: main_stdout setup_argparse_simps(1,3,4) complexity_section_Nil)
  have D: "stdout (final (main e c')) = [] \<and> exit_code (main e c') = 0
        \<and> map log_content (logs (final (main e c'))) =
            (case r of Inl err' \<Rightarrow> [(ERROR, cc_except_message (arg_filepath c') err')] | Inr rs \<Rightarrow> [])
            @ [(INFO, ''No results to display.'')]"
    if t: "0 < threshold (setup_argparse c')" and n: "\<not> flag_report_raw c'"
      and r: "cc_try e (arg_filepath c') (flag_include_imports c') = r"
      and rs: "r = Inl err \<or> r = Inr []" for c' r
  proof -
    have res: "cc_results e (arg_filepath c') (flag_include_imports c') = []"
      using r rs by (auto simp: cc_results_def cc_fst)
    have raw: "raw_section e (setup_argparse c') = []"
      using n by (simp add: raw_section_eq setup_argparse_simps(3))
    show ?thesis
      using t n r res raw
      by (simp add: main_stdout [OF t] main_log_content [OF t] main_exit_code
          setup_argparse_simps(1,3,4) complexity_section_Nil cc_failure_def)
  qed
  from A B C D [of c1 "Inl err"] D [of c2 "Inr []"] show ?thesis
    by simp
qed

text \<open>C10 on a missing file and on a file that holds one assignment.\<close>

theorem empty_list_hides_failure_witness:
  "cc_try sample_env ''missing.py'' False =
     Inl (FileNotFoundError ''[Errno 2] No such file or directory'')
   \<and> cc_try sample_env ''consts.py'' False = Inr []
   \<and> 0 < threshold (setup_argparse missing_cli) \<and> \<not> flag_report_raw missing_cli
   \<and> 0 < threshold (setup_argparse consts_cli) \<and> \<not> flag_report_raw consts_cli
   \<and> fst (calculate_cyclomatic_complexity sample_env ''missing.py'' False world0) = []
   \<and> fst (calculate_cyclomatic_complexity sample_env ''consts.py'' False world0) = []
   \<and> stdout (final (main sample_env missing_cli)) = []
   \<and> stdout (final (main sample_env consts_cli)) = []
   \<and> map log_content (logs (final (main sample_env missing_cli))) =
       [(ERROR, ''File not found: missing.py''), (INFO, ''No results to display.'')]
   \<and> map log_content (logs (final (main sample_env consts_cli))) =
       [(INFO, ''No results to display.'')]"
proof -
  let ?err = "FileNotFoundError ''[Errno 2] No such file or directory''"
  have a: "cc_try sample_env (arg_filepath missing_cli) (flag_include_imports missing_cli) = Inl ?err"
    "cc_try sample_env (arg_filepath consts_cli) (flag_include_imports consts_cli) = Inr []"
    by (simp_all add: missing_cli_def consts_cli_def sample_cc_try)
  have t: "0 < threshold (setup_argparse missing_cli)" "\<not> flag_report_raw missing_cli"
    "0 < threshold (setup_argparse consts_cli)" "\<not> flag_report_raw consts_cli"
    "arg_filepath missing_cli = ''missing.py''"
    by (simp_all add: setup_argparse_def missing_cli_def consts_cli_def)
  from empty_list_hides_failure
         [where e = sample_env and ?fp1.0 = "''missing.py''" and ?fp2.0 = "''consts.py''"
            and incl = False and err = ?err and w = world0 and ?c1.0 = missing_cli
            and ?c2.0 = consts_cli and c = consts_cli and a = "setup_argparse consts_cli"]
       a t sample_cc_try(7,11)
  show ?thesis
    by (simp add: cc_except_message_def)
qed

text \<open>
  C6. The second recorded file has a comment, a blank line and a function, and no
  import: the loop leaves its module body as it is. The two runs report the same name
  and the same score, but not the same lines: the function stands at lines 3 to 4 of
  the file, as the run with \<^verbatim>\<open>--include-imports\<close> reports, and the run without the
  flag reports it at lines 1 to 2, its lines in the rendering of the tree. On this file
  the stripping is not without effect on the results.
\<close>

theorem no_imports_line_numbers_shift:
  "read_file sample_env ''plain.py'' = Inr plain_text
   \<and> ast_parse sample_env plain_text = Inr \<lparr>body = [f_def], type_ignores = []\<rparr>
   \<and> filter is_import [f_def] = []
   \<and> remove_imports [f_def] [] = [f_def]
   \<and> strip_imports sample_env plain_text False = Inr bare_text
   \<and> fst (calculate_cyclomatic_complexity sample_env ''plain.py'' True world0) = [(''f'', 1, 3, 4)]
   \<and> fst (calculate_cyclomatic_complexity sample_env ''plain.py'' False world0) = [(''f'', 1, 1, 2)]
   \<and> map (\<lambda>r. (fst r, fst (snd r)))
         (fst (calculate_cyclomatic_complexity sample_env ''plain.py'' True world0)) =
       map (\<lambda>r. (fst r, fst (snd r)))
         (fst (calculate_cyclomatic_complexity sample_env ''plain.py'' False world0))
   \<and> fst (calculate_cyclomatic_complexity sample_env ''plain.py'' True world0) \<noteq>
       fst (calculate_cyclomatic_complexity sample_env ''plain.py'' False world0)"
  by (simp add: sample_read sample_parse sample_strip cc_fst sample_cc_try)

text \<open>
  C9. Without \<^verbatim>\<open>--include-imports\<close> the entries are those that the complexity visitor
  reports for the unparsing of the filtered tree, so their line numbers are lines of
  that rendering. For the first recorded file they differ from the lines of the file:
  the function stands at lines 3 to 4 of the file and is reported at lines 1 to 2.
\<close>

theorem line_numbers_of_rendered_text:
  "(read_file e fp = Inr code \<and> ast_parse e code = Inr tree
      \<and> ast_unparse e (tree\<lparr>body := filter (\<lambda>node. \<not> is_import node) (body tree)\<rparr>) = Inr code'
      \<and> cc_visit e code' = Inr blocks \<longrightarrow>
    fst (calculate_cyclomatic_complexity e fp False w) = map entry_of blocks
    \<and> map (\<lambda>r. (fst (snd (snd r)), snd (snd (snd r))))
         (fst (calculate_cyclomatic_complexity e fp False w)) =
        map (\<lambda>b. (lineno b, endline b)) blocks)
   \<and> read_file sample_env ''sample.py'' = Inr sample_text
   \<and> cc_visit sample_env sample_text = Inr [f_block 3 4]
   \<and> fst (calculate_cyclomatic_complexity sample_env ''sample.py'' False world0) =
       [(''f'', 1, 1, 2)]"
proof -
  have gen: "fst (calculate_cyclomatic_complexity e fp False w) = map entry_of blocks"
    if "read_file e fp = Inr code" "ast_parse e code = Inr tree"
      "ast_unparse e (tree\<lparr>body := filter (\<lambda>node. \<not> is_import node) (body tree)\<rparr>) = Inr code'"
      "cc_visit e code' = Inr blocks"
    using that by (simp add: cc_fst cc_try_def strip_imports_False)
  have lines: "map (\<lambda>r. (fst (snd (snd r)), snd (snd (snd r)))) (map entry_of blocks) =
        map (\<lambda>b. (lineno b, endline b)) blocks"
    by (simp add: entry_of_def)
  from gen lines show ?thesis
    by (auto simp: sample_read sample_visit cc_fst sample_cc_try)
qed

text \<open>C9 on the first recorded file.\<close>

theorem line_numbers_of_rendered_text_witness:
  "read_file sample_env ''sample.py'' = Inr sample_text
   \<and> ast_parse sample_env sample_text = Inr \<lparr>body = [Import [''os''], f_def], type_ignores = []\<rparr>
   \<and> ast_unparse sample_env \<lparr>body = [f_def], type_ignores = []\<rparr> = Inr bare_text
   \<and> cc_visit sample_env bare_text = Inr [f_block 1 2]
   \<and> fst (calculate_cyclomatic_complexity sample_env ''sample.py'' False world0) =
       map entry_of [f_block 1 2]
   \<and> map (\<lambda>r. (fst (snd (snd r)), snd (snd (snd r))))
         (fst (calculate_cyclomatic_complexity sample_env ''sample.py'' False world0)) = [(1, 2)]"
proof -
  let ?t = "\<lparr>body = [Import [''os''], f_def], type_ignores = []\<rparr>"
  have u: "ast_unparse sample_env (?t\<lparr>body := filter (\<lambda>node. \<not> is_import node) (body ?t)\<rparr>)
             = Inr bare_text"
    by (simp add: sample_unparse)
  from line_numbers_of_rendered_text
         [where e = sample_env and fp = "''sample.py''" and code = sample_text and tree = ?t
            and code' = bare_text and blocks = "[f_block 1 2]" and w = world0]
       sample_read(1) sample_parse(1) u sample_visit(3) sample_unparse(1)
  show ?thesis
    by (simp add: f_block_def entry_of_def)
qed

end
